theory Spec2Isabelle
  imports Main "HOL-Library.Char_ord" "HOL-Library.List_Lexorder" "HOL-Library.Product_Lexorder"
begin

section \<open>Data frames of the clinical reporting package\<close>

text \<open>
  The package \<^verbatim>\<open>demo001\<close> builds its tables with the polars data-frame library.
  A data frame is modelled as the list of its rows, a row as a record (or tuple) of the
  columns the source reads. The key columns (subject identifier, treatment group, event
  term, organ class) hold strings; the columns of the measured variables are nullable.

  Three behaviours of polars are taken as parameters, collected in the record
  \<open>polars\<close>, because the library leaves them open or computes them in floating point:
  the order in which \<^verbatim>\<open>group_by\<close> emits its groups (any order: \<open>group_order\<close> is a
  seed that every list of groups is rearranged by), the decimal text of a rounded
  floating-point statistic (\<open>fmt_mean\<close> and \<open>fmt_sd\<close> of the values of a group,
  \<open>fmt_pct\<close> of a count and a positive denominator), and the title-casing of a string
  (\<open>to_titlecase\<close>).
\<close>

record polars =
  group_order :: "nat list"
  fmt_mean :: "int list \<Rightarrow> string"
  fmt_sd :: "int list \<Rightarrow> string"
  fmt_pct :: "nat \<Rightarrow> nat \<Rightarrow> string"
  to_titlecase :: "string \<Rightarrow> string"

datatype error = IndexError | AttributeError | ShapeError | DuplicateError | ComputeError

text \<open>
  Event-level records (one row per adverse event) and subject-level records (one row per
  participant). A subject-level row gives the value of every measured variable by the
  variable's column name: integer columns for the continuous variables, string columns for
  the categorical ones, \<open>None\<close> for a null.
\<close>

record adae_row =
  USUBJID :: string
  TRT01A :: string
  AEDECOD :: string
  AEBODSYS :: string
  AESER :: string
  AEREL :: string
  AEOUT :: string
  AEACN :: string

record adsl_row =
  TRT01P :: string
  numeric :: "string \<Rightarrow> int option"
  categorical :: "string \<Rightarrow> string option"

text \<open>
  An output table: its column names and its rows, every cell a nullable string.
  \<^verbatim>\<open>pl.DataFrame(data, schema=..., orient="row")\<close> refuses rows that do not have one cell
  per column name, and column names that repeat.
\<close>

type_synonym cell = "string option"

record table =
  table_columns :: "string list"
  table_rows :: "cell list list"

definition pl_DataFrame :: "cell list list \<Rightarrow> string list \<Rightarrow> error + table" where
  "pl_DataFrame data schema =
     (if list_ex (\<lambda>row. length row \<noteq> length schema) data then Inl ShapeError
      else if \<not> distinct schema then Inl DuplicateError
      else Inr \<lparr>table_columns = schema, table_rows = data\<rparr>)"

subsection \<open>The operations of polars the source calls\<close>

text \<open>
  \<open>insert_at\<close> and \<open>reorder\<close> rearrange a list as the seed says: every
  permutation of the list is the result of some seed, and every result is a permutation.
\<close>

fun insert_at :: "nat \<Rightarrow> 'a \<Rightarrow> 'a list \<Rightarrow> 'a list" where
  "insert_at 0 x ys = x # ys"
| "insert_at (Suc n) x [] = [x]"
| "insert_at (Suc n) x (y # ys) = y # insert_at n x ys"

fun reorder :: "nat list \<Rightarrow> 'a list \<Rightarrow> 'a list" where
  "reorder seed [] = []"
| "reorder [] (x # xs) = x # xs"
| "reorder (n # seed) (x # xs) = insert_at n x (reorder seed xs)"

text \<open>\<^verbatim>\<open>Series.unique(maintain_order=True)\<close>: the first occurrence of every value, in order.\<close>

primrec unique_maintain_order :: "'a list \<Rightarrow> 'a list" where
  "unique_maintain_order [] = []"
| "unique_maintain_order (x # xs) = x # filter (\<lambda>y. y \<noteq> x) (unique_maintain_order xs)"

text \<open>\<^verbatim>\<open>Expr.n_unique()\<close>: the number of distinct values.\<close>

definition n_unique :: "'a list \<Rightarrow> nat" where
  "n_unique xs = length (remdups xs)"

text \<open>
  \<^verbatim>\<open>df.group_by(key)\<close>: one group per distinct key, holding the rows of that key; the
  groups come in the order the seed gives.
\<close>

definition group_by :: "polars \<Rightarrow> ('r \<Rightarrow> 'k) \<Rightarrow> 'r list \<Rightarrow> ('k \<times> 'r list) list" where
  "group_by pl key df =
     reorder (group_order pl)
       (map (\<lambda>k. (k, filter (\<lambda>r. key r = k) df)) (unique_maintain_order (map key df)))"

text \<open>
  \<^verbatim>\<open>left.join(right, on=key, how="left")\<close> on frames given as (key, payload) pairs: every
  left row is kept, once per matching right row, or once with a null payload.
  \<^verbatim>\<open>left.join(right, on=key)\<close> is the inner join, one row per matching pair.
\<close>

definition left_join :: "('k \<times> 'a) list \<Rightarrow> ('k \<times> 'b) list \<Rightarrow> ('k \<times> 'a \<times> 'b option) list" where
  "left_join left right =
     concat (map (\<lambda>(k, a).
       (case filter (\<lambda>(k', b). k' = k) right of
          [] \<Rightarrow> [(k, a, None)]
        | ms \<Rightarrow> map (\<lambda>(k', b). (k, a, Some b)) ms)) left)"

definition inner_join :: "('k \<times> 'a) list \<Rightarrow> ('k \<times> 'b) list \<Rightarrow> ('k \<times> 'a \<times> 'b) list" where
  "inner_join left right =
     concat (map (\<lambda>(k, a). map (\<lambda>(k', b). (k, a, b)) (filter (\<lambda>(k', b). k' = k) right)) left)"

definition fill_null :: "'a \<Rightarrow> 'a option \<Rightarrow> 'a" where
  "fill_null d v = (case v of None \<Rightarrow> d | Some x \<Rightarrow> x)"

text \<open>\<^verbatim>\<open>Series.drop_nulls()\<close>.\<close>

definition drop_nulls :: "'a option list \<Rightarrow> 'a list" where
  "drop_nulls xs = concat (map (\<lambda>v. case v of None \<Rightarrow> [] | Some x \<Rightarrow> [x]) xs)"

text \<open>
  \<^verbatim>\<open>pl.concat_str\<close>, which \<^verbatim>\<open>pl.format\<close> is built on: the parts joined, null when a part
  is null.
\<close>

definition concat_str :: "cell list \<Rightarrow> cell" where
  "concat_str parts = (if None \<in> set parts then None else Some (concat (map the parts)))"

subsection \<open>Numbers as text\<close>

text \<open>
  The decimal text of an integer (Python's \<^verbatim>\<open>str\<close>, polars' cast to a string), and of a
  float that is half an integer, which is what the median of an integer column is:
  \<open>str_half t\<close> is the text of \<open>t / 2\<close>.
\<close>

fun str_nat :: "nat \<Rightarrow> string" where
  "str_nat n =
     (if n < 10 then [''0123456789'' ! n]
      else str_nat (n div 10) @ [''0123456789'' ! (n mod 10)])"

declare str_nat.simps [simp del]

definition str_int :: "int \<Rightarrow> string" where
  "str_int i = (if i < 0 then CHR ''-'' # str_nat (nat (- i)) else str_nat (nat i))"

definition str_half :: "int \<Rightarrow> string" where
  "str_half t =
     (if t < 0 then ''-'' else []) @ str_nat (nat \<bar>t\<bar> div 2) @ (if even t then ''.0'' else ''.5'')"

text \<open>
  Twice the median of a non-empty list: the middle value, or the mean of the two middle
  values (polars interpolates linearly).
\<close>

definition median2 :: "int list \<Rightarrow> int" where
  "median2 xs =
     (let s = sort xs; k = length s
      in if odd k then 2 * s ! (k div 2) else s ! (k div 2 - 1) + s ! (k div 2))"

text \<open>
  A percentage \<^verbatim>\<open>(100.0 * n / N).round(1)\<close> is a float. Division by zero does not raise
  in floating point: it gives NaN for \<open>0 / 0\<close> and infinity for a positive count. A
  finite percentage is kept as its count and denominator and printed by \<open>fmt_pct\<close>.
\<close>

datatype pct = NaN | PosInf | Pct nat nat

definition percent :: "nat \<Rightarrow> nat \<Rightarrow> pct" where
  "percent k N = (if N = 0 then (if k = 0 then NaN else PosInf) else Pct k N)"

definition str_pct :: "polars \<Rightarrow> pct \<Rightarrow> string" where
  "str_pct pl p = (case p of NaN \<Rightarrow> ''NaN'' | PosInf \<Rightarrow> ''inf'' | Pct k N \<Rightarrow> fmt_pct pl k N)"

subsection \<open>Python's string methods and comprehensions\<close>

text \<open>
  \<^verbatim>\<open>s.replace(old, new)\<close> replaces the occurrences of \<open>old\<close> from the left, without
  overlap; with an empty \<open>old\<close> it puts \<open>new\<close> before every character and at the end.
\<close>

fun replace_from :: "string \<Rightarrow> string \<Rightarrow> string \<Rightarrow> string" where
  "replace_from old new [] = []"
| "replace_from old new (c # cs) =
     (if old \<noteq> [] \<and> take (length old) (c # cs) = old
      then new @ replace_from old new (drop (length old) (c # cs))
      else c # replace_from old new cs)"

definition py_replace :: "string \<Rightarrow> string \<Rightarrow> string \<Rightarrow> string" where
  "py_replace old new s =
     (if old = [] then concat (map (\<lambda>c. new @ [c]) s) @ new else replace_from old new s)"

text \<open>
  \<^verbatim>\<open>s.title()\<close> on ASCII text: a letter that follows a letter is lowered, any other
  letter is raised.
\<close>

definition is_lower :: "char \<Rightarrow> bool" where
  "is_lower c = (CHR ''a'' \<le> c \<and> c \<le> CHR ''z'')"

definition is_upper :: "char \<Rightarrow> bool" where
  "is_upper c = (CHR ''A'' \<le> c \<and> c \<le> CHR ''Z'')"

definition to_upper :: "char \<Rightarrow> char" where
  "to_upper c = (if is_lower c then char_of (of_char c - (32 :: int)) else c)"

definition to_lower :: "char \<Rightarrow> char" where
  "to_lower c = (if is_upper c then char_of (of_char c + (32 :: int)) else c)"

fun title_from :: "bool \<Rightarrow> string \<Rightarrow> string" where
  "title_from previous_is_cased [] = []"
| "title_from previous_is_cased (c # cs) =
     (if is_lower c then (if previous_is_cased then c else to_upper c) # title_from True cs
      else if is_upper c then (if previous_is_cased then to_lower c else c) # title_from True cs
      else c # title_from False cs)"

definition py_title :: "string \<Rightarrow> string" where
  "py_title s = title_from False s"

text \<open>A list comprehension whose elements may raise: the first error ends it.\<close>

fun collect :: "(error + 'a) list \<Rightarrow> error + 'a list" where
  "collect [] = Inr []"
| "collect (x # xs) =
     (case x of
        Inl e \<Rightarrow> Inl e
      | Inr v \<Rightarrow> (case collect xs of Inl e \<Rightarrow> Inl e | Inr vs \<Rightarrow> Inr (v # vs)))"

section \<open>baseline.py\<close>

subsection \<open>summarize_continuous and format_continuous_stats\<close>

text \<open>
  One row of statistics per treatment group. The mean and the standard deviation are floats
  and are kept as the text polars prints for them; the median of an integer column is half
  an integer and \<open>cs_median\<close> is twice its value. A statistic of no value is null, and
  so is the sample standard deviation of a single value.
\<close>

record continuous_stats =
  cs_TRT01P :: string
  cs_mean :: "string option"
  cs_sd :: "string option"
  cs_median :: "int option"
  cs_min :: "int option"
  cs_max :: "int option"
  cs_n :: nat

definition summarize_continuous :: "polars \<Rightarrow> adsl_row list \<Rightarrow> string \<Rightarrow> continuous_stats list" where
  "summarize_continuous pl df var =
     map (\<lambda>(k, g).
        let xs = drop_nulls (map (\<lambda>r. numeric r var) g)
        in \<lparr>cs_TRT01P = k,
            cs_mean = (if xs = [] then None else Some (fmt_mean pl xs)),
            cs_sd = (if length xs \<le> 1 then None else Some (fmt_sd pl xs)),
            cs_median = (if xs = [] then None else Some (median2 xs)),
            cs_min = (if xs = [] then None else Some (Min (set xs))),
            cs_max = (if xs = [] then None else Some (Max (set xs))),
            cs_n = length g\<rparr>)
       (group_by pl TRT01P df)"

record continuous_formatted =
  cf_TRT01P :: string
  cf_mean_sd :: cell
  cf_median_range :: cell

definition format_continuous_stats :: "continuous_stats list \<Rightarrow> continuous_formatted list" where
  "format_continuous_stats stats =
     map (\<lambda>s.
        \<lparr>cf_TRT01P = cs_TRT01P s,
         cf_mean_sd = concat_str [cs_mean s, Some '' ('', cs_sd s, Some '')''],
         cf_median_range =
           concat_str [map_option str_half (cs_median s), Some '' ['',
                       map_option str_int (cs_min s), Some '', '',
                       map_option str_int (cs_max s), Some '']'']\<rparr>)
       stats"

subsection \<open>summarize_categorical and format_categorical_stats\<close>

record categorical_stats =
  ct_TRT01P :: string
  ct_value :: "string option"
  ct_len :: nat
  ct_total :: nat
  ct_pct :: pct

definition summarize_categorical :: "polars \<Rightarrow> adsl_row list \<Rightarrow> string \<Rightarrow> categorical_stats list" where
  "summarize_categorical pl df var =
     (let counts = map (\<lambda>((t, v), g). (t, v, length g))
                     (group_by pl (\<lambda>r. (TRT01P r, categorical r var)) df);
          totals = map (\<lambda>(t, g). (t, length g)) (group_by pl TRT01P df)
      in map (\<lambda>(t, (v, len), total).
            \<lparr>ct_TRT01P = t, ct_value = v, ct_len = len, ct_total = total,
             ct_pct = percent len total\<rparr>)
          (inner_join counts totals))"

record categorical_formatted =
  kf_TRT01P :: string
  kf_value :: "string option"
  kf_n_pct :: cell

text \<open>
  The column that \<open>var_col\<close> names is the field \<open>kf_value\<close> of the result.
\<close>

definition format_categorical_stats ::
  "polars \<Rightarrow> categorical_stats list \<Rightarrow> string \<Rightarrow> categorical_formatted list" where
  "format_categorical_stats pl stats var_col =
     map (\<lambda>s.
        \<lparr>kf_TRT01P = ct_TRT01P s,
         kf_value = ct_value s,
         kf_n_pct = concat_str [Some (str_nat (ct_len s)), Some '' ('',
                                Some (str_pct pl (ct_pct s)), Some ''%)'']\<rparr>)
       stats"

subsection \<open>get_value\<close>

text \<open>
  The frame is given as the pairs of its \<^verbatim>\<open>TRT01P\<close> column and its last column. The result
  is the cell of the first row of the treatment, which is \<open>None\<close> when that cell is null.
\<close>

definition get_value :: "(string \<times> cell) list \<Rightarrow> string \<Rightarrow> cell" where
  "get_value df treatment =
     (case filter (\<lambda>(t, v). t = treatment) df of
        [] \<Rightarrow> Some ''0 (0.0%)''
      | (t, v) # _ \<Rightarrow> v)"

subsection \<open>create_baseline_table\<close>

text \<open>
  \<^verbatim>\<open>get_value(...).replace("0 (0.0%)", "")\<close>: a null cell is Python's \<^verbatim>\<open>None\<close>, which has
  no method \<^verbatim>\<open>replace\<close>.
\<close>

definition blank_default :: "cell \<Rightarrow> error + string" where
  "blank_default v =
     (case v of
        None \<Rightarrow> Inl AttributeError
      | Some s \<Rightarrow> Inr (py_replace ''0 (0.0%)'' [] s))"

text \<open>The body of the loop over the continuous variables: the three rows of one variable.\<close>

definition continuous_block ::
  "polars \<Rightarrow> adsl_row list \<Rightarrow> string list \<Rightarrow> string \<Rightarrow> error + cell list list" where
  "continuous_block pl adsl treatments var =
     (let var_stats = summarize_continuous pl adsl var;
          var_formatted = format_continuous_stats var_stats;
          label = (if var = ''AGE'' then py_title var @ '' (years)'' else py_title var)
      in case collect (map (\<lambda>trt. blank_default
                  (get_value (map (\<lambda>r. (cf_TRT01P r, cf_mean_sd r)) var_formatted) trt))
                treatments) of
           Inl e \<Rightarrow> Inl e
         | Inr mean_cells \<Rightarrow>
             (case collect (map (\<lambda>trt. blank_default
                      (get_value (map (\<lambda>r. (cf_TRT01P r, cf_median_range r)) var_formatted) trt))
                    treatments) of
                Inl e \<Rightarrow> Inl e
              | Inr median_cells \<Rightarrow>
                  Inr [[Some label, Some [], Some [], Some []],
                       Some ''  Mean (SD)'' # map Some mean_cells,
                       Some ''  Median [Min, Max]'' # map Some median_cells]))"

text \<open>
  The rows of the categories of one variable, from the formatted statistics and the
  categories in display order; then the body of the loop over the categorical variables.
\<close>

definition category_rows ::
  "categorical_formatted list \<Rightarrow> string list \<Rightarrow> string list \<Rightarrow> cell list list" where
  "category_rows var_formatted treatments categories =
     concat (map (\<lambda>category.
       if Some category \<notin> set (remdups (map kf_value var_formatted)) then []
       else
         (let cat_data = filter (\<lambda>r. kf_value r = Some category) var_formatted
          in [Some (''  '' @ category)
                # map (\<lambda>trt. get_value (map (\<lambda>r. (kf_TRT01P r, kf_n_pct r)) cat_data) trt)
                    treatments]))
       categories)"

definition categorical_block ::
  "polars \<Rightarrow> adsl_row list \<Rightarrow> string list \<Rightarrow> string \<Rightarrow> cell list list" where
  "categorical_block pl adsl treatments var =
     (let var_stats = summarize_categorical pl adsl var;
          var_formatted = format_categorical_stats pl var_stats var;
          categories = drop_nulls (unique_maintain_order (map (\<lambda>r. categorical r var) adsl))
      in [Some (py_title var), Some [], Some [], Some []]
         # category_rows var_formatted treatments categories)"

fun continuous_rows ::
  "polars \<Rightarrow> adsl_row list \<Rightarrow> string list \<Rightarrow> string list \<Rightarrow> error + cell list list" where
  "continuous_rows pl adsl treatments [] = Inr []"
| "continuous_rows pl adsl treatments (var # vars) =
     (case continuous_block pl adsl treatments var of
        Inl e \<Rightarrow> Inl e
      | Inr block \<Rightarrow>
          (case continuous_rows pl adsl treatments vars of
             Inl e \<Rightarrow> Inl e
           | Inr later \<Rightarrow> Inr (block @ later)))"

definition create_baseline_table ::
  "polars \<Rightarrow> adsl_row list \<Rightarrow> string list \<Rightarrow> string list \<Rightarrow> string list \<Rightarrow> error + table" where
  "create_baseline_table pl adsl continuous_vars categorical_vars treatments =
     (case continuous_rows pl adsl treatments continuous_vars of
        Inl e \<Rightarrow> Inl e
      | Inr rows_c \<Rightarrow>
          pl_DataFrame
            (rows_c @ concat (map (categorical_block pl adsl treatments) categorical_vars))
            (''Characteristic'' # treatments))"

section \<open>population.py\<close>

record population_count =
  pc_TRT01P :: string
  pc_n :: nat
  pc_population :: string

definition count_by_treatment :: "polars \<Rightarrow> adsl_row list \<Rightarrow> string \<Rightarrow> population_count list" where
  "count_by_treatment pl data population_name =
     map (\<lambda>(k, g). \<lparr>pc_TRT01P = k, pc_n = length g, pc_population = population_name\<rparr>)
       (group_by pl TRT01P data)"

record population_formatted =
  pf_TRT01P :: string
  pf_n :: nat
  pf_population :: string
  pf_total :: nat
  pf_pct :: pct
  pf_display :: string

text \<open>
  The frame \<^verbatim>\<open>formatted_stats\<close> of \<^verbatim>\<open>format_population_table\<close>; the totals are given as
  pairs of their columns \<^verbatim>\<open>TRT01P\<close> and \<^verbatim>\<open>total\<close>. \<open>display_row\<close> computes the two
  new columns of one row of the joined frame.
\<close>

fun display_row :: "polars \<Rightarrow> string \<times> population_count \<times> nat \<Rightarrow> population_formatted" where
  "display_row pl (t, r, denominator) =
     (let p = percent (pc_n r) denominator
      in \<lparr>pf_TRT01P = t, pf_n = pc_n r, pf_population = pc_population r, pf_total = denominator,
          pf_pct = p,
          pf_display =
            (if pc_population r = ''Participants in population'' then str_nat (pc_n r)
             else str_nat (pc_n r) @ '' ('' @ str_pct pl p @ '')'')\<rparr>)"

definition formatted_stats ::
  "polars \<Rightarrow> population_count list \<Rightarrow> (string \<times> nat) list \<Rightarrow> population_formatted list" where
  "formatted_stats pl pop_summary totals =
     map (display_row pl) (inner_join (map (\<lambda>r. (pc_TRT01P r, r)) pop_summary) totals)"

text \<open>
  \<^verbatim>\<open>pivot(values="display", index="population", on="TRT01P", maintain_order=True)\<close>: one
  column per treatment group and one row per population, both in the order of their
  first occurrence in the frame. Two rows for one cell are refused.
\<close>

definition pivot :: "population_formatted list \<Rightarrow> error + table" where
  "pivot df =
     (let ons = unique_maintain_order (map pf_TRT01P df);
          idx = unique_maintain_order (map pf_population df)
      in if \<not> distinct (map (\<lambda>r. (pf_population r, pf_TRT01P r)) df) then Inl ComputeError
         else if ''population'' \<in> set ons then Inl DuplicateError
         else Inr \<lparr>table_columns = ''population'' # ons,
                   table_rows =
                     map (\<lambda>p. Some p
                        # map (\<lambda>t. case filter (\<lambda>r. pf_population r = p \<and> pf_TRT01P r = t) df of
                                     [] \<Rightarrow> None
                                   | r # _ \<Rightarrow> Some (pf_display r))
                            ons)
                       idx\<rparr>)"

definition format_population_table ::
  "polars \<Rightarrow> population_count list \<Rightarrow> (string \<times> nat) list \<Rightarrow> error + table" where
  "format_population_table pl pop_summary totals = pivot (formatted_stats pl pop_summary totals)"

section \<open>safety.py\<close>

subsection \<open>count_participants\<close>

text \<open>
  The treatment-levels frame is given as pairs of its \<^verbatim>\<open>TRT01A\<close> column and the rest of
  the row; a condition is the predicate its polars expression evaluates to, \<open>None\<close>
  when the caller passes none. The result has the columns of the treatment-levels frame
  and the column \<^verbatim>\<open>n\<close>.
\<close>

definition count_participants ::
  "polars \<Rightarrow> adae_row list \<Rightarrow> (string \<times> 'a) list \<Rightarrow> (adae_row \<Rightarrow> bool) option
     \<Rightarrow> (string \<times> 'a \<times> nat) list" where
  "count_participants pl df treatment_levels condition =
     (let df' = (case condition of None \<Rightarrow> df | Some c \<Rightarrow> filter c df);
          counts = map (\<lambda>(k, g). (k, n_unique (map USUBJID g))) (group_by pl TRT01A df')
      in map (\<lambda>(k, a, n). (k, a, fill_null 0 n)) (left_join treatment_levels counts))"

text \<open>The rows of \<open>df\<close> that a call with this condition counts.\<close>

definition qualifying :: "(adae_row \<Rightarrow> bool) option \<Rightarrow> adae_row \<Rightarrow> bool" where
  "qualifying condition r = (case condition of None \<Rightarrow> True | Some c \<Rightarrow> c r)"

subsection \<open>format_ae_summary\<close>

text \<open>
  The summary has the columns \<^verbatim>\<open>TRT01A\<close>, \<^verbatim>\<open>n\<close> and \<^verbatim>\<open>category\<close>; the population
  counts are pairs of \<^verbatim>\<open>TRT01A\<close> and \<^verbatim>\<open>N\<close>. Both expressions of the first
  \<^verbatim>\<open>with_columns\<close> read the columns of the joined frame, so the percentage is computed
  from the count before its nulls are filled. \<open>ae_formatted\<close> computes the columns of
  one row of the joined frame.
\<close>

record ae_summary_row =
  ae_TRT01A :: string
  ae_n :: "nat option"
  ae_category :: string

record ae_formatted_row =
  af_TRT01A :: string
  af_n :: nat
  af_category :: string
  af_N :: "nat option"
  af_pct :: "pct option"
  af_n_display :: string
  af_pct_display :: string

fun ae_formatted :: "polars \<Rightarrow> string \<times> ae_summary_row \<times> nat option \<Rightarrow> ae_formatted_row" where
  "ae_formatted pl (t, r, N) =
     (let n_filled = fill_null 0 (ae_n r);
          p = (if ae_category r = ''Participants in population'' then None
               else (case (ae_n r, N) of
                       (Some k, Some d) \<Rightarrow> Some (percent k d)
                     | _ \<Rightarrow> None))
      in \<lparr>af_TRT01A = t, af_n = n_filled, af_category = ae_category r, af_N = N, af_pct = p,
          af_n_display = str_nat n_filled,
          af_pct_display =
            (if ae_category r = ''Participants in population'' then []
             else ''('' @ (case p of None \<Rightarrow> ''0.0'' | Some q \<Rightarrow> str_pct pl q) @ '')'')\<rparr>)"

definition format_ae_summary ::
  "polars \<Rightarrow> ae_summary_row list \<Rightarrow> (string \<times> nat) list \<Rightarrow> ae_formatted_row list" where
  "format_ae_summary pl ae_summary pop_counts =
     map (ae_formatted pl) (left_join (map (\<lambda>r. (ae_TRT01A r, r)) ae_summary) pop_counts)"

subsection \<open>create_ae_by_soc_table\<close>

record ae_count =
  ac_TRT01A :: string
  ac_AEBODSYS_STD :: string
  ac_AEDECOD_STD :: string
  ac_n :: nat

definition ae_counts :: "polars \<Rightarrow> adae_row list \<Rightarrow> ae_count list" where
  "ae_counts pl adae_safety =
     sort_key (\<lambda>c. (ac_AEBODSYS_STD c, ac_AEDECOD_STD c, ac_TRT01A c))
       (map (\<lambda>((t, soc, term_std), g).
              \<lparr>ac_TRT01A = t, ac_AEBODSYS_STD = soc, ac_AEDECOD_STD = term_std,
               ac_n = n_unique (map USUBJID g)\<rparr>)
          (group_by pl
             (\<lambda>r. (TRT01A r, to_titlecase pl (AEBODSYS r), to_titlecase pl (AEDECOD r)))
             adae_safety))"

text \<open>
  The first row of the table: \<^verbatim>\<open>pop_counts.filter(...)["N"][0]\<close> for every treatment, an
  index error when the filter leaves no row.
\<close>

definition population_cells :: "(string \<times> nat) list \<Rightarrow> string list \<Rightarrow> error + string list" where
  "population_cells pop_counts treatments =
     collect (map (\<lambda>t. case filter (\<lambda>(t', N). t' = t) pop_counts of
                          [] \<Rightarrow> Inl IndexError
                        | (t', N) # _ \<Rightarrow> Inr (str_nat N))
                treatments)"

text \<open>
  The count of one term and treatment:
  \<^verbatim>\<open>count_data["n"][0] if count_data.height > 0 else 0\<close>.
\<close>

definition term_count :: "ae_count list \<Rightarrow> string \<Rightarrow> string \<Rightarrow> nat" where
  "term_count soc_data ae_term trt =
     (let count_data = filter (\<lambda>c. ac_AEDECOD_STD c = ae_term \<and> ac_TRT01A c = trt) soc_data
      in case count_data of [] \<Rightarrow> 0 | c # _ \<Rightarrow> ac_n c)"

text \<open>The rows of one organ class: its header and one row per event term.\<close>

definition soc_block :: "ae_count list \<Rightarrow> string list \<Rightarrow> string \<Rightarrow> cell list list" where
  "soc_block counts treatments soc =
     (let soc_data = filter (\<lambda>c. ac_AEBODSYS_STD c = soc) counts
      in (Some soc # replicate (length treatments) (Some []))
         # map (\<lambda>ae_term.
              Some (''  '' @ ae_term)
              # map (\<lambda>trt. Some (str_nat (term_count soc_data ae_term trt))) treatments)
             (sort (remdups (map ac_AEDECOD_STD soc_data))))"

definition create_ae_by_soc_table ::
  "polars \<Rightarrow> adae_row list \<Rightarrow> (string \<times> nat) list \<Rightarrow> string list \<Rightarrow> error + table" where
  "create_ae_by_soc_table pl adae_safety pop_counts treatments =
     (let counts = ae_counts pl adae_safety
      in case population_cells pop_counts treatments of
           Inl e \<Rightarrow> Inl e
         | Inr cells \<Rightarrow>
             pl_DataFrame
               ([Some ''Participants in population'' # map Some cells,
                 replicate (length treatments + 1) (Some [])]
                @ concat (map (soc_block counts treatments)
                            (sort (remdups (map ac_AEBODSYS_STD counts)))))
               (''System Organ Class / Preferred Term'' # treatments))"

section \<open>Notions the properties are stated with\<close>

text \<open>
  The position of the first occurrence of a value in a column; the non-null values a
  treatment group has for a continuous variable; the texts of the two statistic cells of
  such a list of values; the label of a continuous variable; the standardized organ class
  and event term of an event.
\<close>

definition first_occurrence :: "'a list \<Rightarrow> 'a \<Rightarrow> nat" where
  "first_occurrence xs a = length (takeWhile (\<lambda>x. x \<noteq> a) xs)"

definition numeric_values :: "adsl_row list \<Rightarrow> string \<Rightarrow> string \<Rightarrow> int list" where
  "numeric_values adsl var trt =
     drop_nulls (map (\<lambda>r. numeric r var) (filter (\<lambda>r. TRT01P r = trt) adsl))"

definition mean_sd_text :: "polars \<Rightarrow> int list \<Rightarrow> cell" where
  "mean_sd_text pl xs =
     (if length xs \<le> 1 then None else Some (fmt_mean pl xs @ '' ('' @ fmt_sd pl xs @ '')''))"

definition median_range_text :: "int list \<Rightarrow> cell" where
  "median_range_text xs =
     (if xs = [] then None
      else Some (str_half (median2 xs) @ '' ['' @ str_int (Min (set xs)) @ '', ''
                 @ str_int (Max (set xs)) @ '']''))"

definition continuous_label :: "string \<Rightarrow> string" where
  "continuous_label var = (if var = ''AGE'' then py_title var @ '' (years)'' else py_title var)"

definition soc_std :: "polars \<Rightarrow> adae_row \<Rightarrow> string" where
  "soc_std pl r = to_titlecase pl (AEBODSYS r)"

definition term_std :: "polars \<Rightarrow> adae_row \<Rightarrow> string" where
  "term_std pl r = to_titlecase pl (AEDECOD r)"

section \<open>Example data\<close>

text \<open>
  A library instance for the examples: groups in the order of their first row, a
  percentage rounded to one decimal, Python's title-casing, and placeholder texts for the
  mean and the standard deviation, whose digits no example depends on.
\<close>

definition pl_first_order :: polars where
  "pl_first_order =
     \<lparr>group_order = [],
      fmt_mean = (\<lambda>xs. ''mean''),
      fmt_sd = (\<lambda>xs. ''sd''),
      fmt_pct = (\<lambda>k N. let tenths = (2000 * int k + int N) div (2 * int N)
                       in str_int (tenths div 10) @ ''.'' @ str_int (tenths mod 10)),
      to_titlecase = py_title\<rparr>"

definition ae_event :: "string \<Rightarrow> string \<Rightarrow> string \<Rightarrow> string \<Rightarrow> string \<Rightarrow> adae_row" where
  "ae_event subj trt term_name soc serious =
     \<lparr>USUBJID = subj, TRT01A = trt, AEDECOD = term_name, AEBODSYS = soc, AESER = serious,
      AEREL = ''NONE'', AEOUT = ''RECOVERED'', AEACN = ''NONE''\<rparr>"

definition subject :: "string \<Rightarrow> int \<Rightarrow> string \<Rightarrow> adsl_row" where
  "subject trt age sex =
     \<lparr>TRT01P = trt,
      numeric = (\<lambda>v. if v = ''AGE'' then Some age else None),
      categorical = (\<lambda>v. if v = ''SEX'' then Some sex else None)\<rparr>"

text \<open>
  Scenario A of the specification: ages 30 and 40 on placebo, 50 on the drug. The second
  data set has two participants per group, so that every standard deviation exists.
\<close>

definition scenario_a :: "adsl_row list" where
  "scenario_a = [subject ''Placebo'' 30 ''F'', subject ''Placebo'' 40 ''M'', subject ''Drug'' 50 ''M'']"

definition adsl_example :: "adsl_row list" where
  "adsl_example =
     [subject ''Placebo'' 30 ''M'', subject ''Drug'' 50 ''F'', subject ''Placebo'' 40 ''F'',
      subject ''Drug'' 61 ''F'']"

definition three_arms :: "string list" where
  "three_arms = [''Placebo'', ''Drug'', ''High Dose'']"

text \<open>
  Scenario D of the specification: two organ classes with one term each; the participant
  on the drug has the same event twice.
\<close>

definition scenario_d :: "adae_row list" where
  "scenario_d =
     [ae_event ''S1'' ''Drug'' ''RASH'' ''SKIN DISORDERS'' ''N'',
      ae_event ''S2'' ''Placebo'' ''PALPITATIONS'' ''CARDIAC DISORDERS'' ''Y'',
      ae_event ''S1'' ''Drug'' ''RASH'' ''SKIN DISORDERS'' ''N'']"

definition levels_example :: "(string \<times> unit) list" where
  "levels_example = [(''Placebo'', ()), (''Drug'', ()), (''High Dose'', ())]"

text \<open>The tables the examples produce.\<close>

definition baseline_example_table :: table where
  "baseline_example_table =
     \<lparr>table_columns = [''Characteristic'', ''Placebo'', ''Drug'', ''High Dose''],
      table_rows =
        [[Some ''Age (years)'', Some [], Some [], Some []],
         [Some ''  Mean (SD)'', Some ''mean (sd)'', Some ''mean (sd)'', Some []],
         [Some ''  Median [Min, Max]'', Some ''35.0 [30, 40]'', Some ''55.5 [50, 61]'', Some []],
         [Some ''Sex'', Some [], Some [], Some []],
         [Some ''  M'', Some ''1 (50.0%)'', Some ''0 (0.0%)'', Some ''0 (0.0%)''],
         [Some ''  F'', Some ''1 (50.0%)'', Some ''2 (100.0%)'', Some ''0 (0.0%)'']]\<rparr>"

definition ae_example_table :: table where
  "ae_example_table =
     \<lparr>table_columns = [''System Organ Class / Preferred Term'', ''Placebo'', ''Drug''],
      table_rows =
        [[Some ''Participants in population'', Some ''5'', Some ''6''],
         [Some [], Some [], Some []],
         [Some ''Cardiac Disorders'', Some [], Some []],
         [Some ''  Palpitations'', Some ''1'', Some ''0''],
         [Some ''Skin Disorders'', Some [], Some []],
         [Some ''  Rash'', Some ''0'', Some ''1'']]\<rparr>"

definition population_example_table :: table where
  "population_example_table =
     \<lparr>table_columns = [''population'', ''Drug'', ''Placebo''],
      table_rows = [[Some ''Participants in population'', Some ''1'', Some ''1'']]\<rparr>"

section \<open>Properties of the polars operations\<close>

lemma set_insert_at: "set (insert_at n x ys) = insert x (set ys)"
  by (induction n x ys rule: insert_at.induct) auto

lemma distinct_insert_at: "distinct (insert_at n x ys) \<longleftrightarrow> x \<notin> set ys \<and> distinct ys"
  by (induction n x ys rule: insert_at.induct) (auto simp: set_insert_at)

lemma length_insert_at: "length (insert_at n x ys) = Suc (length ys)"
  by (induction n x ys rule: insert_at.induct) auto

lemma map_insert_at: "map f (insert_at n x ys) = insert_at n (f x) (map f ys)"
  by (induction n x ys rule: insert_at.induct) auto

lemma set_reorder: "set (reorder seed xs) = set xs"
  by (induction seed xs rule: reorder.induct) (auto simp: set_insert_at)

lemma map_reorder: "map f (reorder seed xs) = reorder seed (map f xs)"
  by (induction seed xs rule: reorder.induct) (auto simp: map_insert_at)

lemma distinct_reorder: "distinct (reorder seed xs) \<longleftrightarrow> distinct xs"
  by (induction seed xs rule: reorder.induct) (auto simp: distinct_insert_at set_reorder)

lemma length_reorder: "length (reorder seed xs) = length xs"
  by (induction seed xs rule: reorder.induct) (auto simp: length_insert_at)

lemma set_unique_maintain_order: "set (unique_maintain_order xs) = set xs"
  by (induction xs) auto

lemma distinct_unique_maintain_order: "distinct (unique_maintain_order xs)"
  by (induction xs) (auto simp: set_unique_maintain_order)

lemma n_unique_card: "n_unique xs = card (set xs)"
  by (simp add: n_unique_def card_set)

lemma group_by_keys_distinct: "distinct (map fst (group_by pl key df))"
  by (simp add: group_by_def map_reorder distinct_reorder o_def distinct_unique_maintain_order)

lemma group_by_keys_set: "fst ` set (group_by pl key df) = key ` set df"
  by (simp add: group_by_def set_reorder image_image set_unique_maintain_order)

lemma group_by_rows:
  assumes "(k, g) \<in> set (group_by pl key df)"
  shows "g = filter (\<lambda>r. key r = k) df"
  using assms by (auto simp: group_by_def set_reorder)

lemma group_by_member:
  assumes "r \<in> set df"
  shows "(key r, filter (\<lambda>r'. key r' = key r) df) \<in> set (group_by pl key df)"
  using assms by (auto simp: group_by_def set_reorder set_unique_maintain_order)

text \<open>Looking a key up in a frame whose keys are distinct finds at most one row.\<close>

lemma filter_key_distinct:
  assumes "distinct (map fst xs)"
  shows "filter (\<lambda>(k', b). k' = k) xs = (case map_of xs k of None \<Rightarrow> [] | Some b \<Rightarrow> [(k, b)])"
  using assms
proof (induction xs)
  case Nil
  then show ?case by simp
next
  case (Cons x xs)
  obtain k0 b0 where x: "x = (k0, b0)" by (cases x)
  show ?case
  proof (cases "k0 = k")
    case True
    with Cons.prems x have "k \<notin> fst ` set xs" by auto
    then have "filter (\<lambda>(k', b). k' = k) xs = []"
      by (force simp: filter_empty_conv)
    with True x show ?thesis by simp
  next
    case False
    with Cons x show ?thesis by simp
  qed
qed

lemma set_group_by:
  "set (group_by pl key df) = (\<lambda>k. (k, filter (\<lambda>r. key r = k) df)) ` key ` set df"
  by (simp add: group_by_def set_reorder set_unique_maintain_order)

lemma map_of_group_by:
  "map_of (map (\<lambda>(k, g). (k, f k g)) (group_by pl key df)) k =
     (if k \<in> key ` set df then Some (f k (filter (\<lambda>r. key r = k) df)) else None)"
proof -
  let ?xs = "map (\<lambda>(k, g). (k, f k g)) (group_by pl key df)"
  have fst_eq: "map fst ?xs = map fst (group_by pl key df)"
    by (simp add: o_def case_prod_unfold)
  have d: "distinct (map fst ?xs)"
    unfolding fst_eq by (rule group_by_keys_distinct)
  show ?thesis
  proof (cases "k \<in> key ` set df")
    case True
    then have "(k, f k (filter (\<lambda>r. key r = k) df)) \<in> set ?xs"
      by (force simp: set_group_by)
    with d True show ?thesis by simp
  next
    case False
    then have "k \<notin> fst ` set ?xs"
      using group_by_keys_set [of pl key df] fst_eq by (metis list.set_map)
    with False show ?thesis by (simp add: map_of_eq_None_iff)
  qed
qed

lemma agg_keys_distinct:
  "distinct (map fst (map (\<lambda>(k, g). (k, f k g)) (group_by pl key df)))"
proof -
  have "map fst (map (\<lambda>(k, g). (k, f k g)) (group_by pl key df)) = map fst (group_by pl key df)"
    by (simp add: o_def case_prod_unfold)
  then show ?thesis by (simp only: group_by_keys_distinct)
qed

lemma left_join_distinct:
  assumes "distinct (map fst right)"
  shows "left_join left right = map (\<lambda>(k, a). (k, a, map_of right k)) left"
proof (induction left)
  case Nil
  then show ?case by (simp add: left_join_def)
next
  case (Cons x xs)
  obtain k a where x: "x = (k, a)" by (cases x)
  have "left_join (x # xs) right =
          (case filter (\<lambda>(k', b). k' = k) right of
             [] \<Rightarrow> [(k, a, None)]
           | ms \<Rightarrow> map (\<lambda>(k', b). (k, a, Some b)) ms) @ left_join xs right"
    by (simp add: left_join_def x)
  also have "(case filter (\<lambda>(k', b). k' = k) right of
             [] \<Rightarrow> [(k, a, None)]
           | ms \<Rightarrow> map (\<lambda>(k', b). (k, a, Some b)) ms) = [(k, a, map_of right k)]"
    by (simp add: filter_key_distinct [OF assms] split: option.split)
  finally show ?case using Cons.IH by (simp add: x)
qed

section \<open>Counting participants\<close>

lemma qualifying_Some: "qualifying (Some c) = c"
  by (rule ext) (simp add: qualifying_def)

lemma qualifying_None: "qualifying None = (\<lambda>r. True)"
  by (rule ext) (simp add: qualifying_def)

lemma filtered_rows:
  "(case condition of None \<Rightarrow> df | Some c \<Rightarrow> filter c df) = filter (qualifying condition) df"
  by (cases condition) (simp_all add: qualifying_Some qualifying_None)

lemma count_participants_eq:
  "count_participants pl df levels cond =
     map (\<lambda>(k, a). (k, a, card (USUBJID ` {r \<in> set df. TRT01A r = k \<and> qualifying cond r}))) levels"
proof -
  let ?df = "filter (qualifying cond) df"
  let ?counts = "map (\<lambda>(k, g). (k, n_unique (map USUBJID g))) (group_by pl TRT01A ?df)"
  have lj: "left_join levels ?counts = map (\<lambda>(k, a). (k, a, map_of ?counts k)) levels"
    by (rule left_join_distinct [OF agg_keys_distinct])
  have look: "fill_null 0 (map_of ?counts k)
                = card (USUBJID ` {r \<in> set df. TRT01A r = k \<and> qualifying cond r})" for k
  proof (cases "k \<in> TRT01A ` set ?df")
    case True
    have "set (filter (\<lambda>r. TRT01A r = k) ?df) = {r \<in> set df. TRT01A r = k \<and> qualifying cond r}"
      by auto
    then have "n_unique (map USUBJID (filter (\<lambda>r. TRT01A r = k) ?df))
                 = card (USUBJID ` {r \<in> set df. TRT01A r = k \<and> qualifying cond r})"
      by (simp add: n_unique_card)
    with True show ?thesis
      by (simp add: map_of_group_by [where f = "\<lambda>k g. n_unique (map USUBJID g)"] fill_null_def)
  next
    case False
    then have "{r \<in> set df. TRT01A r = k \<and> qualifying cond r} = {}" by auto
    with False show ?thesis
      by (simp add: map_of_group_by [where f = "\<lambda>k g. n_unique (map USUBJID g)"] fill_null_def)
  qed
  have look': "fill_null 0 (map_of (map (\<lambda>p. (fst p, n_unique (map USUBJID (snd p))))
                   (group_by pl TRT01A ?df)) k)
                = card (USUBJID ` {r \<in> set df. TRT01A r = k \<and> qualifying cond r})" for k
    using look [of k] by (simp add: case_prod_unfold)
  show ?thesis
    unfolding count_participants_def Let_def filtered_rows lj
    by (simp add: look' case_prod_unfold)
qed

text \<open>
  Claim C1. The result of \<open>count_participants\<close> has exactly the rows of the
  treatment-levels frame, in their order, each with a count; a level that no row of the
  data set matching the condition belongs to has the count 0; on an empty data set every
  level has the count 0. This holds for every order of the groups of the aggregation.
\<close>

theorem count_participants_zero_fill:
  "map (\<lambda>(k, a, n). (k, a)) (count_participants pl df levels cond) = levels
   \<and> (\<forall>i < length levels.
        \<not> (\<exists>r \<in> set df. TRT01A r = fst (levels ! i) \<and> qualifying cond r)
        \<longrightarrow> snd (snd (count_participants pl df levels cond ! i)) = 0)
   \<and> count_participants pl [] levels cond = map (\<lambda>(k, a). (k, a, 0)) levels"
proof (intro conjI allI impI)
  show "map (\<lambda>(k, a, n). (k, a)) (count_participants pl df levels cond) = levels"
    by (simp add: count_participants_eq case_prod_unfold o_def)
next
  fix i
  assume i: "i < length levels"
    and none: "\<not> (\<exists>r \<in> set df. TRT01A r = fst (levels ! i) \<and> qualifying cond r)"
  from none have "{r \<in> set df. TRT01A r = fst (levels ! i) \<and> qualifying cond r} = {}" by auto
  with i show "snd (snd (count_participants pl df levels cond ! i)) = 0"
    by (simp add: count_participants_eq case_prod_unfold)
next
  show "count_participants pl [] levels cond = map (\<lambda>(k, a). (k, a, 0)) levels"
    by (simp add: count_participants_eq)
qed

text \<open>
  An instance: of the three levels, the drug has events but no serious one, so its row is
  there with the count 0.
\<close>

theorem count_participants_zero_fill_witness:
  "map (\<lambda>(k, a, n). (k, a))
      (count_participants pl_first_order scenario_d levels_example (Some (\<lambda>r. AESER r = ''Y'')))
     = levels_example
   \<and> snd (snd (count_participants pl_first_order scenario_d levels_example
                  (Some (\<lambda>r. AESER r = ''Y'')) ! 1)) = 0
   \<and> count_participants pl_first_order [] levels_example (Some (\<lambda>r. AESER r = ''Y''))
       = [(''Placebo'', (), 0), (''Drug'', (), 0), (''High Dose'', (), 0)]"
proof -
  note t = count_participants_zero_fill
    [of pl_first_order scenario_d levels_example "Some (\<lambda>r. AESER r = ''Y'')"]
  have i: "1 < length levels_example"
    by (simp add: levels_example_def)
  have none: "\<not> (\<exists>r \<in> set scenario_d. TRT01A r = fst (levels_example ! 1)
                \<and> qualifying (Some (\<lambda>r. AESER r = ''Y'')) r)"
    by (simp add: scenario_d_def levels_example_def qualifying_def ae_event_def)
  have e: "map (\<lambda>(k, a). (k, a, 0::nat)) levels_example
             = [(''Placebo'', (), 0), (''Drug'', (), 0), (''High Dose'', (), 0)]"
    by (simp add: levels_example_def)
  from t i none e show ?thesis by simp
qed

text \<open>
  Claim C5. The count of a treatment group in the result of \<open>count_participants\<close> is
  the number of distinct subject identifiers among the rows of the group that satisfy the
  condition.
\<close>

theorem count_participants_distinct_subjects:
  assumes "(k, a, n) \<in> set (count_participants pl df levels cond)"
  shows "n = card (USUBJID ` {r \<in> set df. TRT01A r = k \<and> qualifying cond r})"
  using assms by (auto simp: count_participants_eq)

text \<open>
  An instance: the participant on the drug has two event rows and is counted once.
\<close>

theorem count_participants_distinct_subjects_witness:
  "(''Drug'', (), 1) \<in> set (count_participants pl_first_order scenario_d levels_example None)
   \<and> length (filter (\<lambda>r. TRT01A r = ''Drug'' \<and> qualifying None r) scenario_d) = 2
   \<and> card (USUBJID ` {r \<in> set scenario_d. TRT01A r = ''Drug'' \<and> qualifying None r}) = 1"
proof -
  have m: "(''Drug'', (), 1) \<in> set (count_participants pl_first_order scenario_d levels_example None)"
    by code_simp
  have two: "length (filter (\<lambda>r. TRT01A r = ''Drug'' \<and> qualifying None r) scenario_d) = 2"
    by code_simp
  from count_participants_distinct_subjects [OF m] m two show ?thesis by simp
qed

section \<open>Percentages of a zero denominator\<close>

text \<open>
  Claim C3 says that a percentage over the denominator 0 is reported as 0.0 and never as
  a non-numeric token. It fails: with a population of 0 participants on the drug, the rows
  of 0 and of 2 participants get the percentages NaN and infinity, shown as \<^verbatim>\<open>(NaN)\<close> and
  \<^verbatim>\<open>(inf)\<close>.
\<close>

theorem zero_denominator_counterexample:
  "map (\<lambda>r. (af_N r, af_pct r, af_pct_display r))
     (format_ae_summary pl_first_order
        [\<lparr>ae_TRT01A = ''Drug'', ae_n = Some 0, ae_category = ''With any adverse event''\<rparr>,
         \<lparr>ae_TRT01A = ''Drug'', ae_n = Some 2, ae_category = ''With serious adverse event''\<rparr>]
        [(''Drug'', 0)])
   = [(Some 0, Some NaN, ''(NaN)''), (Some 0, Some PosInf, ''(inf)'')]"
  by code_simp

lemma set_inner_join:
  "set (inner_join left right) = {(k, a, b) | k a b. (k, a) \<in> set left \<and> (k, b) \<in> set right}"
  unfolding inner_join_def by force

text \<open>
  Claim C3, amended. The computation does not raise, and over the denominator 0 the
  percentage is NaN when the count is 0 and infinity when the count is positive; the
  formatted output shows that token, \<^verbatim>\<open>(NaN)\<close> or \<^verbatim>\<open>(inf)\<close> in the adverse-event summary
  and after the count in the population table. Only a row of the adverse-event summary
  whose count was null has no percentage, shown as \<^verbatim>\<open>(0.0)\<close>.
\<close>

theorem zero_denominator_not_zero_percent:
  "(r \<in> set (format_ae_summary pl ae_summary pop_counts) \<longrightarrow> af_N r = Some 0
      \<longrightarrow> af_category r \<noteq> ''Participants in population''
      \<longrightarrow> (af_pct r = None \<and> af_n r = 0 \<and> af_pct_display r = ''(0.0)'')
          \<or> (af_pct r = Some NaN \<and> af_n r = 0 \<and> af_pct_display r = ''(NaN)'')
          \<or> (af_pct r = Some PosInf \<and> 0 < af_n r \<and> af_pct_display r = ''(inf)''))
   \<and> (q \<in> set (formatted_stats pl pop_summary totals) \<longrightarrow> pf_total q = 0
      \<longrightarrow> pf_pct q = (if pf_n q = 0 then NaN else PosInf)
          \<and> (pf_population q \<noteq> ''Participants in population''
              \<longrightarrow> pf_display q = str_nat (pf_n q) @ (if pf_n q = 0 then '' (NaN)'' else '' (inf)'')))"
proof (intro conjI impI)
  assume "r \<in> set (format_ae_summary pl ae_summary pop_counts)"
    and N: "af_N r = Some 0" and c: "af_category r \<noteq> ''Participants in population''"
  then obtain x where r: "r = ae_formatted pl x"
    by (auto simp: format_ae_summary_def)
  obtain t a d where x: "x = (t, a, d)" by (cases x)
  from r x N have d: "d = Some 0" by (simp add: Let_def)
  from r x c have c': "ae_category a \<noteq> ''Participants in population''" by (simp add: Let_def)
  show "(af_pct r = None \<and> af_n r = 0 \<and> af_pct_display r = ''(0.0)'')
          \<or> (af_pct r = Some NaN \<and> af_n r = 0 \<and> af_pct_display r = ''(NaN)'')
          \<or> (af_pct r = Some PosInf \<and> 0 < af_n r \<and> af_pct_display r = ''(inf)'')"
  proof (cases "ae_n a")
    case None
    with r x d c' show ?thesis by (simp add: Let_def fill_null_def)
  next
    case (Some k)
    with r x d c' show ?thesis
      by (cases "k = 0") (simp_all add: Let_def fill_null_def percent_def str_pct_def)
  qed
next
  assume "q \<in> set (formatted_stats pl pop_summary totals)" and z: "pf_total q = 0"
  then obtain x where q: "q = display_row pl x"
    by (auto simp: formatted_stats_def)
  obtain t a tot where x: "x = (t, a, tot)" by (cases x)
  from q x z have tz: "tot = 0" by (simp add: Let_def)
  from q x tz show "pf_pct q = (if pf_n q = 0 then NaN else PosInf)"
    by (simp add: Let_def percent_def)
  assume "pf_population q \<noteq> ''Participants in population''"
  with q x tz show "pf_display q = str_nat (pf_n q) @ (if pf_n q = 0 then '' (NaN)'' else '' (inf)'')"
    by (simp add: Let_def percent_def str_pct_def)
qed

end
